theory Spec2Isabelle
  imports Complex_Main "HOL-Library.Multiset" "HOL-Library.Char_ord" "HOL-Library.List_Lexorder"
begin

section \<open>Data model\<close>

text \<open>
  One row of the alert table read from the CSV file. Timestamps are seconds since the
  epoch (a naive instant), the two impact columns are integers, the two identifiers
  are strings compared character by character, as Python compares them. Sums of the
  impact columns are exact: the 64-bit range of the table's integer columns is not
  modelled.
\<close>

record alert =
  timestamp :: int
  device_id :: string
  error_code :: string
  customer_impact :: int
  revenue_risk :: int

text \<open>
  A row of \<open>processed_df\<close>: the alert with the four columns that
  \<open>preprocess_features\<close> adds. These are the records stored in an incident.
\<close>

record row = alert +
  hour :: int
  day_of_week :: int
  device_id_encoded :: nat
  error_code_encoded :: nat

datatype priority = High | Medium | Low

record incident =
  incident_id :: int
  alert_count :: nat
  alerts :: "row list"
  priority :: priority
  total_customers :: int
  total_revenue_risk :: int
  primary_error :: string
  affected_devices :: "string list"
  start_time :: int
  end_time :: int

text \<open>The exceptions of the pipeline, as values.\<close>

datatype error =
    LengthMismatch
  | IndexError
  | EmptyBatch
  | InvalidParameter
  | TooFewSamples
  | TooManyLabels

section \<open>Incident aggregation: \<open>create_incidents\<close>\<close>

text \<open>The \<open>if / elif / else\<close> on \<open>total_revenue_risk\<close> in the cluster loop.\<close>

definition cluster_priority :: "int \<Rightarrow> priority" where
  "cluster_priority risk =
     (if risk > 500000 then High
      else if risk > 100000 then Medium
      else Low)"

text \<open>
  \<open>Series.mode()\<close>: the values that occur most often, returned in sorted order.
  \<open>.iloc[0]\<close> takes the first of them and raises on an empty result.
\<close>

definition series_mode :: "string list \<Rightarrow> string list" where
  "series_mode xs =
     sort (filter (\<lambda>v. \<forall>w \<in> set xs. count_list xs w \<le> count_list xs v) (remdups xs))"

fun iloc0 :: "'a list \<Rightarrow> error + 'a" where
  "iloc0 [] = Inl IndexError"
| "iloc0 (x # xs) = Inr x"

text \<open>
  The body of the cluster loop for the rows \<open>cluster_alerts\<close> of one label, where
  \<open>n\<close> is \<open>len(incidents)\<close> at that moment. An empty selection would fail at
  \<open>mode().iloc[0]\<close>, before the minimum and maximum of the timestamps are taken.
\<close>

definition cluster_incident :: "nat \<Rightarrow> row list \<Rightarrow> error + incident" where
  "cluster_incident n cluster_alerts =
     (let customers = sum_list (map customer_impact cluster_alerts);
          risk = sum_list (map revenue_risk cluster_alerts)
      in case iloc0 (series_mode (map error_code cluster_alerts)) of
           Inl e \<Rightarrow> Inl e
         | Inr top_error \<Rightarrow> Inr
             \<lparr> incident_id = int n + 1,
               alert_count = length cluster_alerts,
               alerts = cluster_alerts,
               priority = cluster_priority risk,
               total_customers = customers,
               total_revenue_risk = risk,
               primary_error = top_error,
               affected_devices = sort (remdups (map device_id cluster_alerts)),
               start_time = Min (set (map timestamp cluster_alerts)),
               end_time = Max (set (map timestamp cluster_alerts)) \<rparr>)"

text \<open>The rows of the labelled table whose \<open>cluster\<close> column equals \<open>c\<close>.\<close>

definition rows_with :: "int \<Rightarrow> (row \<times> int) list \<Rightarrow> row list" where
  "rows_with c df_clustered = map fst (filter (\<lambda>p. snd p = c) df_clustered)"

text \<open>
  The first loop, over \<open>sorted(set(cluster_labels))\<close>, skipping the noise label
  \<open>-1\<close>; \<open>incidents\<close> is the list built so far.
\<close>

fun cluster_loop :: "(row \<times> int) list \<Rightarrow> int list \<Rightarrow> incident list \<Rightarrow> error + incident list" where
  "cluster_loop df_clustered [] incidents = Inr incidents"
| "cluster_loop df_clustered (cluster_id # rest) incidents =
     (if cluster_id = - 1 then cluster_loop df_clustered rest incidents
      else case cluster_incident (length incidents) (rows_with cluster_id df_clustered) of
             Inl e \<Rightarrow> Inl e
           | Inr inc \<Rightarrow> cluster_loop df_clustered rest (incidents @ [inc]))"

text \<open>The incident built for one noise row.\<close>

definition noise_incident :: "nat \<Rightarrow> row \<Rightarrow> incident" where
  "noise_incident n a =
     \<lparr> incident_id = int n + 1,
       alert_count = 1,
       alerts = [a],
       priority = Low,
       total_customers = customer_impact a,
       total_revenue_risk = revenue_risk a,
       primary_error = error_code a,
       affected_devices = [device_id a],
       start_time = timestamp a,
       end_time = timestamp a \<rparr>"

text \<open>The second loop, over the rows labelled \<open>-1\<close>.\<close>

fun noise_loop :: "row list \<Rightarrow> incident list \<Rightarrow> incident list" where
  "noise_loop [] incidents = incidents"
| "noise_loop (a # noise_alerts) incidents =
     noise_loop noise_alerts (incidents @ [noise_incident (length incidents) a])"

text \<open>
  The incident list as it stands before the final sort. Assigning a label column of
  the wrong length to the table raises.
\<close>

definition build_incidents :: "row list \<Rightarrow> int list \<Rightarrow> error + incident list" where
  "build_incidents df cluster_labels =
     (if length cluster_labels \<noteq> length df then Inl LengthMismatch
      else let df_clustered = zip df cluster_labels
           in case cluster_loop df_clustered (sort (remdups cluster_labels)) [] of
                Inl e \<Rightarrow> Inl e
              | Inr incidents \<Rightarrow> Inr (noise_loop (rows_with (- 1) df_clustered) incidents))"

text \<open>
  \<open>incidents.sort(key=..., reverse=True)\<close> is a stable sort by descending key: it is
  the stable ascending sort by the negated key.
\<close>

definition sort_by_risk :: "incident list \<Rightarrow> incident list" where
  "sort_by_risk incidents = sort_key (\<lambda>i. - total_revenue_risk i) incidents"

definition create_incidents :: "row list \<Rightarrow> int list \<Rightarrow> error + incident list" where
  "create_incidents df cluster_labels =
     (case build_incidents df cluster_labels of
        Inl e \<Rightarrow> Inl e
      | Inr incidents \<Rightarrow> Inr (sort_by_risk incidents))"

section \<open>The correlator object\<close>

text \<open>
  The fields set by \<open>__init__\<close>. A fitted \<open>LabelEncoder\<close> is its list of classes, the
  dictionary \<open>label_encoders\<close> maps a column name to its encoder; a fitted
  \<open>StandardScaler\<close> is the pair of \<open>means\<close> and \<open>scales\<close>; a \<open>DBSCAN\<close> object is
  the pair of its \<open>eps\<close> and \<open>min_samples\<close>.
\<close>

record correlator =
  label_encoders :: "string \<rightharpoonup> string list"
  scaler :: "(real list \<times> real list) option"
  clusterer :: "(real \<times> nat) option"

definition new_correlator :: correlator where
  "new_correlator = \<lparr> label_encoders = Map.empty, scaler = None, clusterer = None \<rparr>"

section \<open>Feature encoding and normalisation: \<open>preprocess_features\<close>\<close>

text \<open>
  \<open>LabelEncoder.fit_transform\<close>: the classes are the distinct values in sorted order,
  and every value is replaced by its position among the classes.
\<close>

definition fit_classes :: "string list \<Rightarrow> string list" where
  "fit_classes y = sort (remdups y)"

fun label_index :: "string list \<Rightarrow> string \<Rightarrow> nat" where
  "label_index [] v = 0"
| "label_index (c # cs) v = (if c = v then 0 else Suc (label_index cs v))"

definition fit_transform_labels :: "string list \<Rightarrow> string list \<times> nat list" where
  "fit_transform_labels y = (fit_classes y, map (label_index (fit_classes y)) y)"

text \<open>
  The hour of the day and the day of the week (Monday is 0) of a naive timestamp given
  in seconds since Thursday 1 January 1970, 00:00.
\<close>

definition dt_hour :: "int \<Rightarrow> int" where
  "dt_hour t = (t div 3600) mod 24"

definition dt_dayofweek :: "int \<Rightarrow> int" where
  "dt_dayofweek t = (t div 86400 + 3) mod 7"

text \<open>The row of \<open>processed_df\<close> for one alert, given the two fitted encoders.\<close>

definition processed_row :: "string list \<Rightarrow> string list \<Rightarrow> alert \<Rightarrow> row" where
  "processed_row device_classes error_classes a =
     \<lparr> timestamp = timestamp a,
       device_id = device_id a,
       error_code = error_code a,
       customer_impact = customer_impact a,
       revenue_risk = revenue_risk a,
       hour = dt_hour (timestamp a),
       day_of_week = dt_dayofweek (timestamp a),
       device_id_encoded = label_index device_classes (device_id a),
       error_code_encoded = label_index error_classes (error_code a) \<rparr>"

text \<open>The six \<open>feature_cols\<close> of a processed row, in the order of the source.\<close>

definition feature_values :: "row \<Rightarrow> real list" where
  "feature_values r =
     [real (device_id_encoded r), real (error_code_encoded r),
      real_of_int (customer_impact r), real_of_int (revenue_risk r),
      real_of_int (hour r), real_of_int (day_of_week r)]"

text \<open>
  \<open>StandardScaler\<close>, over the real numbers: per column the mean and the population
  standard deviation; a standard deviation of zero is replaced by 1 before it is
  stored as the scale. Fitting an empty table raises. Rounding of the floating-point
  computation is not modelled.
\<close>

definition column :: "nat \<Rightarrow> real list list \<Rightarrow> real list" where
  "column j X = map (\<lambda>r. r ! j) X"

definition mean :: "real list \<Rightarrow> real" where
  "mean xs = sum_list xs / real (length xs)"

definition variance :: "real list \<Rightarrow> real" where
  "variance xs = mean (map (\<lambda>x. (x - mean xs)\<^sup>2) xs)"

definition std :: "real list \<Rightarrow> real" where
  "std xs = sqrt (variance xs)"

definition handle_zeros_in_scale :: "real \<Rightarrow> real" where
  "handle_zeros_in_scale s = (if s = 0 then 1 else s)"

fun scaler_fit :: "real list list \<Rightarrow> error + (real list \<times> real list)" where
  "scaler_fit [] = Inl EmptyBatch"
| "scaler_fit (r # rs) =
     Inr (map (\<lambda>j. mean (column j (r # rs))) [0..<length r],
          map (\<lambda>j. handle_zeros_in_scale (std (column j (r # rs)))) [0..<length r])"

definition scaler_transform :: "real list \<Rightarrow> real list \<Rightarrow> real list list \<Rightarrow> real list list" where
  "scaler_transform means scales X =
     map (\<lambda>r. map (\<lambda>j. (r ! j - means ! j) / scales ! j) [0..<length r]) X"

text \<open>
  \<open>preprocess_features\<close>. Both encoders are fitted anew on the batch and stored in
  the object, then the scaler is fitted on the feature table and stored. The result
  is the pair of the scaled features and the processed table.
\<close>

definition processed_table :: "alert list \<Rightarrow> row list" where
  "processed_table df =
     map (processed_row (fst (fit_transform_labels (map device_id df)))
                        (fst (fit_transform_labels (map error_code df)))) df"

definition preprocess_features ::
  "correlator \<Rightarrow> alert list \<Rightarrow> (error + real list list \<times> row list) \<times> correlator" where
  "preprocess_features self df =
     (let self1 = self \<lparr> label_encoders := (label_encoders self)
                    (''device_id'' \<mapsto> fst (fit_transform_labels (map device_id df)),
                     ''error_code'' \<mapsto> fst (fit_transform_labels (map error_code df))) \<rparr>;
          processed_df = processed_table df;
          features = map feature_values processed_df
      in case scaler_fit features of
           Inl e \<Rightarrow> (Inl e, self1)
         | Inr (means, scales) \<Rightarrow>
             (Inr (scaler_transform means scales features, processed_df),
              self1 \<lparr> scaler := Some (means, scales) \<rparr>))"

section \<open>Neighbourhood radius: \<open>find_optimal_eps\<close>\<close>

text \<open>
  The Euclidean distance of two vectors, and \<open>kneighbors\<close> called with the fitted
  table itself as the query: for every row the distances to its \<open>n_neighbors\<close>
  nearest rows of the table in ascending order. The query row is a row of the table
  and is not left out, so the first distance is the distance of the row to itself.
\<close>

definition euclidean :: "real list \<Rightarrow> real list \<Rightarrow> real" where
  "euclidean x y = sqrt (sum_list (map2 (\<lambda>a b. (a - b)\<^sup>2) x y))"

definition kneighbors :: "nat \<Rightarrow> real list list \<Rightarrow> real list list \<Rightarrow> real list list" where
  "kneighbors n_neighbors fitted X =
     map (\<lambda>x. take n_neighbors (sort (map (euclidean x) fitted))) X"

text \<open>
  \<open>np.percentile\<close> with its default linear interpolation between the two order
  statistics around the position \<open>(n - 1) * q / 100\<close>.
\<close>

definition percentile :: "real list \<Rightarrow> real \<Rightarrow> real" where
  "percentile a q =
     (let s = sort a;
          h = (real (length s) - 1) * q / 100;
          lo = nat \<lfloor>h\<rfloor>;
          hi = min (lo + 1) (length s - 1)
      in s ! lo + (h - real lo) * (s ! hi - s ! lo))"

text \<open>
  \<open>find_optimal_eps\<close>. The library rejects a neighbour count below 1 and an empty
  table when the neighbours are fitted, and a neighbour count above the number of
  fitted rows when they are queried.
\<close>

definition find_optimal_eps :: "real list list \<Rightarrow> nat \<Rightarrow> error + real" where
  "find_optimal_eps features min_samples =
     (if min_samples < 1 then Inl InvalidParameter
      else if features = [] then Inl EmptyBatch
      else if min_samples > length features then Inl TooFewSamples
      else let distances = kneighbors min_samples features features;
               distances = sort (map (\<lambda>d. d ! (min_samples - 1)) distances)
           in Inr (percentile distances 75))"

section \<open>Clustering: \<open>cluster_alerts\<close>\<close>

text \<open>
  The density clustering itself is scikit-learn's \<open>DBSCAN.fit_predict\<close>, which is not
  part of the repository: it is a parameter \<open>dbscan\<close> here, a function from \<open>eps\<close>,
  \<open>min_samples\<close> and the feature table to the labels. What the library checks before
  it clusters is written out: \<open>eps\<close> must be positive, \<open>min_samples\<close> at least 1 and
  the table not empty. The silhouette score is printed only, but it raises when every
  vector has a label of its own.
\<close>

type_synonym clustering = "real \<Rightarrow> nat \<Rightarrow> real list list \<Rightarrow> int list"

definition cluster_alerts ::
  "clustering \<Rightarrow> correlator \<Rightarrow> real list list \<Rightarrow> real option \<Rightarrow> nat
     \<Rightarrow> (error + int list) \<times> correlator" where
  "cluster_alerts dbscan self features eps min_samples =
     (case (case eps of None \<Rightarrow> find_optimal_eps features min_samples | Some e \<Rightarrow> Inr e) of
        Inl err \<Rightarrow> (Inl err, self)
      | Inr e \<Rightarrow>
          (let self1 = self \<lparr> clusterer := Some (e, min_samples) \<rparr>
           in if e \<le> 0 \<or> min_samples < 1 then (Inl InvalidParameter, self1)
              else if features = [] then (Inl EmptyBatch, self1)
              else let cluster_labels = dbscan e min_samples features;
                       n_clusters = length (remdups cluster_labels)
                                      - (if - 1 \<in> set cluster_labels then 1 else 0)
                   in if n_clusters > 1
                         \<and> \<not> length (remdups cluster_labels) < length features
                      then (Inl TooManyLabels, self1)
                      else (Inr cluster_labels, self1)))"

section \<open>The pipeline: \<open>correlate_alerts\<close>\<close>

text \<open>
  \<open>correlate_alerts\<close>, on the result of \<open>load_alerts\<close>: \<open>None\<close> when the file
  could not be read, the table otherwise. Clustering is called with the features only,
  so \<open>eps\<close> is estimated and \<open>min_samples\<close> is 5. The call is one without an
  output path, so nothing is saved; printing the summary does not change the returned
  list.
\<close>

definition correlate_alerts ::
  "clustering \<Rightarrow> correlator \<Rightarrow> alert list option
     \<Rightarrow> (error + incident list option) \<times> correlator" where
  "correlate_alerts dbscan self loaded =
     (case loaded of
        None \<Rightarrow> (Inr None, self)
      | Some df \<Rightarrow>
          (case preprocess_features self df of
             (Inl e, self1) \<Rightarrow> (Inl e, self1)
           | (Inr (features, processed_df), self1) \<Rightarrow>
               (case cluster_alerts dbscan self1 features None 5 of
                  (Inl e, self2) \<Rightarrow> (Inl e, self2)
                | (Inr cluster_labels, self2) \<Rightarrow>
                    (case create_incidents processed_df cluster_labels of
                       Inl e \<Rightarrow> (Inl e, self2)
                     | Inr incidents \<Rightarrow> (Inr (Some incidents), self2)))))"

section \<open>Example data\<close>

text \<open>
  Two rows of a processed table, as \<open>preprocess_features\<close> yields them for a batch of
  two alerts raised one minute apart on Thursday 1 January 1970.
\<close>

definition example_row1 :: row where
  "example_row1 =
     \<lparr> timestamp = 0, device_id = ''T2'', error_code = ''TIMEOUT'',
       customer_impact = 5, revenue_risk = 600000,
       hour = 0, day_of_week = 3, device_id_encoded = 1, error_code_encoded = 1 \<rparr>"

definition example_row2 :: row where
  "example_row2 =
     \<lparr> timestamp = 60, device_id = ''T1'', error_code = ''BGP_FAIL'',
       customer_impact = 7, revenue_risk = 700000,
       hour = 0, day_of_week = 3, device_id_encoded = 0, error_code_encoded = 0 \<rparr>"

text \<open>The two alerts of these rows as they are read from the file.\<close>

definition example_alert1 :: alert where
  "example_alert1 =
     \<lparr> timestamp = 0, device_id = ''T2'', error_code = ''TIMEOUT'',
       customer_impact = 5, revenue_risk = 600000 \<rparr>"



text \<open>
  A labelling that marks every vector as noise, as density clustering does on a table
  with fewer rows than \<open>min_samples\<close>.
\<close>

definition all_noise :: clustering where
  "all_noise eps min_samples X = map (\<lambda>x. - 1) X"

text \<open>
  A batch of five alerts that differ in \<open>customer_impact\<close> only, the incident they form
  when they are one cluster, and a labelling that puts every vector into cluster 0, as
  density clustering does when there are at least \<open>min_samples\<close> vectors and every
  vector is within \<open>eps\<close> of every other.
\<close>

definition example_batch :: "alert list" where
  "example_batch =
     map (\<lambda>c. \<lparr> timestamp = 0, device_id = ''T1'', error_code = ''BGP_FAIL'',
                customer_impact = c, revenue_risk = 200000 \<rparr>) [1, 1, 1, 1, 6]"

definition example_incident :: incident where
  "example_incident =
     \<lparr> incident_id = 1,
       alert_count = 5,
       alerts = map (\<lambda>c. \<lparr> timestamp = 0, device_id = ''T1'', error_code = ''BGP_FAIL'',
                customer_impact = c, revenue_risk = 200000,
                hour = 0, day_of_week = 3, device_id_encoded = 0, error_code_encoded = 0 \<rparr>)
                  [1, 1, 1, 1, 6],
       priority = High,
       total_customers = 10,
       total_revenue_risk = 1000000,
       primary_error = ''BGP_FAIL'',
       affected_devices = [''T1''],
       start_time = 0,
       end_time = 0 \<rparr>"

definition one_cluster :: clustering where
  "one_cluster eps min_samples X = map (\<lambda>x. 0) X"

section \<open>The specification's reading of three rules\<close>





section \<open>Properties of the incident aggregation\<close>

lemma noise_loop_eq:
  "noise_loop noise incidents =
     incidents @ map (\<lambda>k. noise_incident (length incidents + k) (noise ! k)) [0..<length noise]"
proof (induction noise arbitrary: incidents)
  case Nil
  then show ?case by simp
next
  case (Cons a noise)
  have "map (\<lambda>k. noise_incident (length incidents + k) ((a # noise) ! k)) [0..<length (a # noise)]
      = noise_incident (length incidents) a #
        map (\<lambda>k. noise_incident (Suc (length incidents) + k) (noise ! k)) [0..<length noise]"
    by (simp add: upt_conv_Cons map_Suc_upt [symmetric] del: upt_Suc)
  then show ?case using Cons.IH [of "incidents @ [noise_incident (length incidents) a]"]
    by simp
qed

lemma series_mode_nonempty: "xs \<noteq> [] \<Longrightarrow> series_mode xs \<noteq> []"
proof -
  assume ne: "xs \<noteq> []"
  let ?S = "count_list xs ` set xs"
  have "Max ?S \<in> ?S" using ne by (intro Max_in) auto
  then obtain v where v: "v \<in> set xs" "count_list xs v = Max ?S" by auto
  have "\<forall>w \<in> set xs. count_list xs w \<le> count_list xs v"
    using v by (simp)
  then have "v \<in> set (series_mode xs)" using v(1) by (simp add: series_mode_def)
  then show ?thesis by auto
qed

lemma cluster_incident_ok:
  "rs \<noteq> [] \<Longrightarrow> \<exists>inc. cluster_incident n rs = Inr inc \<and> alerts inc = rs \<and> incident_id inc = int n + 1
     \<and> iloc0 (series_mode (map error_code rs)) = Inr (primary_error inc)"
proof -
  assume "rs \<noteq> []"
  then have "series_mode (map error_code rs) \<noteq> []" by (simp add: series_mode_nonempty)
  then obtain m ms where "series_mode (map error_code rs) = m # ms" by (cases "series_mode (map error_code rs)") auto
  then show ?thesis by (simp add: cluster_incident_def Let_def)
qed

lemma cluster_loop_ok:
  "\<forall>c \<in> set cids. c \<noteq> - 1 \<longrightarrow> rows_with c dfc \<noteq> [] \<Longrightarrow>
   \<exists>new. cluster_loop dfc cids incidents = Inr (incidents @ new)
     \<and> map alerts new = map (\<lambda>c. rows_with c dfc) (filter (\<lambda>c. c \<noteq> - 1) cids)
     \<and> map incident_id new = map (\<lambda>k. int (length incidents + k) + 1) [0..<length new]
     \<and> (\<forall>i \<in> set new. iloc0 (series_mode (map error_code (alerts i))) = Inr (primary_error i))"
proof (induction cids arbitrary: incidents)
  case Nil
  then show ?case by simp
next
  case (Cons c cids)
  show ?case
  proof (cases "c = - 1")
    case True
    then show ?thesis using Cons.IH [of incidents] Cons.prems by simp
  next
    case False
    then have "rows_with c dfc \<noteq> []" using Cons.prems by simp
    from cluster_incident_ok [OF this, of "length incidents"]
    obtain inc where inc: "cluster_incident (length incidents) (rows_with c dfc) = Inr inc"
      "alerts inc = rows_with c dfc" "incident_id inc = int (length incidents) + 1"
      "iloc0 (series_mode (map error_code (rows_with c dfc))) = Inr (primary_error inc)" by blast
    from Cons.IH [of "incidents @ [inc]"] Cons.prems
    obtain new where new: "cluster_loop dfc cids (incidents @ [inc]) = Inr ((incidents @ [inc]) @ new)"
      "map alerts new = map (\<lambda>c. rows_with c dfc) (filter (\<lambda>c. c \<noteq> - 1) cids)"
      "map incident_id new = map (\<lambda>k. int (length (incidents @ [inc]) + k) + 1) [0..<length new]"
      "\<forall>i \<in> set new. iloc0 (series_mode (map error_code (alerts i))) = Inr (primary_error i)"
      by auto
    have ids: "map incident_id (inc # new) = map (\<lambda>k. int (length incidents + k) + 1) [0..<length (inc # new)]"
      using new(3) inc(3)
      by (simp add: upt_conv_Cons map_Suc_upt [symmetric] del: upt_Suc)
    show ?thesis
      apply (rule exI [of _ "inc # new"])
      using False inc new(1,2,4) ids by simp
  qed
qed

lemma rows_with_nonempty:
  "length labels = length df \<Longrightarrow> c \<in> set labels \<Longrightarrow> rows_with c (zip df labels) \<noteq> []"
proof -
  assume len: "length labels = length df" and c: "c \<in> set labels"
  then obtain k where k: "k < length labels" "labels ! k = c" by (auto simp: in_set_conv_nth)
  then have "(df ! k, c) \<in> set (zip df labels)" using len by (auto simp: set_zip)
  then have "(df ! k, c) \<in> set (filter (\<lambda>p. snd p = c) (zip df labels))" by simp
  then show ?thesis unfolding rows_with_def by (metis empty_iff list.set(1) map_is_Nil_conv)
qed

lemma build_incidents_ok:
  assumes len: "length labels = length df"
  shows "\<exists>cl. build_incidents df labels =
           Inr (cl @ map (\<lambda>k. noise_incident (length cl + k) (rows_with (- 1) (zip df labels) ! k))
                        [0..<length (rows_with (- 1) (zip df labels))])
     \<and> map alerts cl = map (\<lambda>c. rows_with c (zip df labels)) (filter (\<lambda>c. c \<noteq> - 1) (sort (remdups labels)))
     \<and> map incident_id cl = map (\<lambda>k. int k + 1) [0..<length cl]
     \<and> (\<forall>i \<in> set cl. iloc0 (series_mode (map error_code (alerts i))) = Inr (primary_error i))"
proof -
  have "\<forall>c \<in> set (sort (remdups labels)). c \<noteq> - 1 \<longrightarrow> rows_with c (zip df labels) \<noteq> []"
    using rows_with_nonempty [OF len] by simp
  from cluster_loop_ok [OF this, of "[]"]
  obtain cl where cl: "cluster_loop (zip df labels) (sort (remdups labels)) [] = Inr cl"
     "map alerts cl = map (\<lambda>c. rows_with c (zip df labels)) (filter (\<lambda>c. c \<noteq> - 1) (sort (remdups labels)))"
     "map incident_id cl = map (\<lambda>k. int k + 1) [0..<length cl]"
     "\<forall>i \<in> set cl. iloc0 (series_mode (map error_code (alerts i))) = Inr (primary_error i)"
    by auto
  show ?thesis
    apply (rule exI [of _ cl])
    using cl len by (simp add: build_incidents_def Let_def noise_loop_eq)
qed

lemma noise_part_props:
  "map alerts (map (\<lambda>k. noise_incident (n + k) (noise ! k)) [0..<length noise]) = map (\<lambda>a. [a]) noise"
  by (rule nth_equalityI) (simp_all add: noise_incident_def)

text \<open>
  Claim C4. With one label per row, the incident list is a rearrangement of the
  cluster incidents followed by the noise incidents; the noise incidents hold the rows
  labelled \<open>-1\<close>, one row each and in row order, every one of them has priority
  \<open>Low\<close> and \<open>alert_count\<close> 1 whatever its revenue risk is, and the cluster
  incidents hold only rows of other labels.
\<close>

theorem noise_alerts_become_low_singletons:
  assumes "length labels = length df"
  shows "\<exists>incs cl ns. create_incidents df labels = Inr incs \<and> mset incs = mset (cl @ ns)
     \<and> map alerts ns = map (\<lambda>a. [a]) (rows_with (- 1) (zip df labels))
     \<and> (\<forall>i \<in> set ns. priority i = Low \<and> alert_count i = 1)
     \<and> map alerts cl = map (\<lambda>c. rows_with c (zip df labels)) (filter (\<lambda>c. c \<noteq> - 1) (sort (remdups labels)))"
proof -
  let ?noise = "rows_with (- 1) (zip df labels)"
  from build_incidents_ok [OF assms]
  obtain cl where cl: "build_incidents df labels =
           Inr (cl @ map (\<lambda>k. noise_incident (length cl + k) (?noise ! k)) [0..<length ?noise])"
     "map alerts cl = map (\<lambda>c. rows_with c (zip df labels)) (filter (\<lambda>c. c \<noteq> - 1) (sort (remdups labels)))"
    by blast
  let ?ns = "map (\<lambda>k. noise_incident (length cl + k) (?noise ! k)) [0..<length ?noise]"
  have 1: "create_incidents df labels = Inr (sort_by_risk (cl @ ?ns))"
    using cl(1) by (simp add: create_incidents_def)
  have 2: "mset (sort_by_risk (cl @ ?ns)) = mset (cl @ ?ns)"
    by (simp add: sort_by_risk_def)
  have 3: "map alerts ?ns = map (\<lambda>a. [a]) ?noise" by (rule noise_part_props)
  have 4: "\<forall>i \<in> set ?ns. priority i = Low \<and> alert_count i = 1"
    by (auto simp: noise_incident_def)
  show ?thesis using 1 2 3 4 cl(2) by blast
qed

theorem noise_alerts_become_low_singletons_witness:
  "length [- 1, 0 :: int] = length [example_row1, example_row2] \<and>
   (\<exists>incs cl ns. create_incidents [example_row1, example_row2] [- 1, 0] = Inr incs \<and> mset incs = mset (cl @ ns)
     \<and> map alerts ns = map (\<lambda>a. [a]) (rows_with (- 1) (zip [example_row1, example_row2] [- 1, 0]))
     \<and> (\<forall>i \<in> set ns. priority i = Low \<and> alert_count i = 1)
     \<and> map alerts cl = map (\<lambda>c. rows_with c (zip [example_row1, example_row2] [- 1, 0])) (filter (\<lambda>c. c \<noteq> - 1) (sort (remdups [- 1, 0]))))"
  using noise_alerts_become_low_singletons [of "[- 1, 0]" "[example_row1, example_row2]"]
  by simp

lemma mset_concat_perm:
  "mset xs = mset ys \<Longrightarrow> mset (concat (map f xs)) = mset (concat (map f ys))"
proof -
  assume a: "mset xs = mset ys"
  have "mset (concat (map f xs)) = sum_mset (image_mset (\<lambda>x. mset (f x)) (mset xs))" for xs :: "'a list"
    by (induction xs) simp_all
  then show ?thesis using a by simp
qed

lemma mset_rows_with_labels:
  "distinct cs \<Longrightarrow>
   mset (concat (map (\<lambda>c. rows_with c dfc) cs)) = mset (map fst (filter (\<lambda>p. snd p \<in> set cs) dfc))"
proof (induction cs)
  case Nil
  then show ?case by simp
next
  case (Cons c cs)
  then have c: "c \<notin> set cs" and d: "distinct cs" by simp_all
  have "mset (map fst (filter (\<lambda>p. snd p \<in> set (c # cs)) dfc))
      = mset (rows_with c dfc) + mset (map fst (filter (\<lambda>p. snd p \<in> set cs) dfc))"
    unfolding rows_with_def using c by (induction dfc) auto
  then show ?case using Cons.IH [OF d] by simp
qed

lemma mset_all_rows:
  assumes len: "length labels = length df"
  shows "mset (concat (map (\<lambda>c. rows_with c (zip df labels)) (filter (\<lambda>c. c \<noteq> - 1) (sort (remdups labels)))))
         + mset (rows_with (- 1) (zip df labels)) = mset df"
proof -
  let ?cs = "filter (\<lambda>c. c \<noteq> - 1) (sort (remdups labels))"
  have "distinct ?cs" by simp
  from mset_rows_with_labels [OF this, of "zip df labels"]
  have 1: "mset (concat (map (\<lambda>c. rows_with c (zip df labels)) ?cs))
      = mset (map fst (filter (\<lambda>p. snd p \<in> set ?cs) (zip df labels)))" .
  have 2: "filter (\<lambda>p. snd p \<in> set ?cs) (zip df labels) = filter (\<lambda>p. snd p \<noteq> - 1) (zip df labels)"
    by (rule filter_cong) (auto simp: set_zip)
  have "mset (map fst (filter (\<lambda>p. snd p \<noteq> - 1) zs)) + mset (rows_with (- 1) zs)
       = mset (map fst zs)" for zs :: "(row \<times> int) list"
    unfolding rows_with_def by (induction zs) auto
  then have 3: "mset (map fst (filter (\<lambda>p. snd p \<noteq> - 1) (zip df labels))) + mset (rows_with (- 1) (zip df labels))
       = mset (map fst (zip df labels))" .
  have 4: "map fst (zip df labels) = df" using len by (simp add: map_fst_zip)
  show ?thesis unfolding 1 2 3 4 ..
qed

text \<open>
  Claim C9. With one label per row, whatever the labels are, the member lists of the
  incidents together hold every row of the batch exactly as often as the batch does:
  no row is lost and none appears in two incidents.
\<close>

theorem alerts_partitioned_among_incidents:
  assumes "length labels = length df"
  shows "\<exists>incs. create_incidents df labels = Inr incs \<and> mset (concat (map alerts incs)) = mset df"
proof -
  let ?noise = "rows_with (- 1) (zip df labels)"
  from build_incidents_ok [OF assms]
  obtain cl where cl: "build_incidents df labels =
           Inr (cl @ map (\<lambda>k. noise_incident (length cl + k) (?noise ! k)) [0..<length ?noise])"
     "map alerts cl = map (\<lambda>c. rows_with c (zip df labels)) (filter (\<lambda>c. c \<noteq> - 1) (sort (remdups labels)))"
    by blast
  let ?ns = "map (\<lambda>k. noise_incident (length cl + k) (?noise ! k)) [0..<length ?noise]"
  have 1: "create_incidents df labels = Inr (sort_by_risk (cl @ ?ns))"
    using cl(1) by (simp add: create_incidents_def)
  have "mset (sort_by_risk (cl @ ?ns)) = mset (cl @ ?ns)"
    by (simp add: sort_by_risk_def)
  then have "mset (concat (map alerts (sort_by_risk (cl @ ?ns)))) = mset (concat (map alerts (cl @ ?ns)))"
    by (rule mset_concat_perm)
  also have "\<dots> = mset (concat (map alerts cl)) + mset (concat (map alerts ?ns))" by simp
  also have "map alerts ?ns = map (\<lambda>a. [a]) ?noise" by (rule noise_part_props)
  also have "concat (map (\<lambda>a. [a]) ?noise) = ?noise" by (induction ?noise) simp_all
  also have "mset (concat (map alerts cl)) + mset ?noise = mset df"
    using cl(2) mset_all_rows [OF assms] by simp
  finally show ?thesis using 1 by simp
qed

theorem alerts_partitioned_among_incidents_witness:
  "length [0, - 1, 0 :: int] = length [example_row1, example_row2, example_row1] \<and>
   (\<exists>incs. create_incidents [example_row1, example_row2, example_row1] [0, - 1, 0] = Inr incs
      \<and> mset (concat (map alerts incs)) = mset [example_row1, example_row2, example_row1])"
  using alerts_partitioned_among_incidents [of "[0, - 1, 0]" "[example_row1, example_row2, example_row1]"]
  by simp


lemma sorted_by_risk_descending: "sorted (rev (map total_revenue_risk (sort_by_risk xs)))"
proof -
  have "sorted (map (\<lambda>i. - total_revenue_risk i) (sort_by_risk xs))"
    unfolding sort_by_risk_def by (rule sorted_sort_key)
  then have "\<forall>j k. j \<le> k \<longrightarrow> k < length (sort_by_risk xs) \<longrightarrow>
       total_revenue_risk (sort_by_risk xs ! k) \<le> total_revenue_risk (sort_by_risk xs ! j)"
    by (auto simp: sorted_iff_nth_mono)
  then show ?thesis by (simp add: sorted_rev_iff_nth_mono)
qed




lemma noise_row_in_rows_with:
  "length labels = length df \<Longrightarrow> k < length df \<Longrightarrow> labels ! k = - 1 \<Longrightarrow>
   df ! k \<in> set (rows_with (- 1) (zip df labels))"
proof -
  assume len: "length labels = length df" and k: "k < length df" and l: "labels ! k = - 1"
  have "(df ! k, labels ! k) \<in> set (zip df labels)" using len k by (auto simp: set_zip)
  then have "(df ! k, - 1) \<in> set (filter (\<lambda>p. snd p = - 1) (zip df labels))" using l by simp
  then have "fst (df ! k, - 1 :: int) \<in> fst ` set (filter (\<lambda>p. snd p = - 1) (zip df labels))"
    by (rule imageI)
  then show ?thesis by (simp add: rows_with_def)
qed

text \<open>
  Claim C3, as amended. Every row labelled \<open>-1\<close> has an incident of its own in the
  result, with that row as its only member, \<open>alert_count\<close> 1 and the row's revenue
  risk as \<open>total_revenue_risk\<close>. Its priority is \<open>Low\<close> whatever that risk is; this
  is what the thresholds of the cluster incidents would give only for a risk of at most
  100000.
\<close>

theorem noise_alert_incident_is_low:
  assumes "length labels = length df" and "k < length df" and "labels ! k = - 1"
  shows "\<exists>incs i. create_incidents df labels = Inr incs \<and> i \<in> set incs
     \<and> alerts i = [df ! k] \<and> alert_count i = 1
     \<and> total_revenue_risk i = revenue_risk (df ! k)
     \<and> priority i = Low
     \<and> (priority i = cluster_priority (total_revenue_risk i) \<longleftrightarrow> revenue_risk (df ! k) \<le> 100000)"
proof -
  let ?noise = "rows_with (- 1) (zip df labels)"
  from build_incidents_ok [OF assms(1)]
  obtain cl where cl: "build_incidents df labels =
           Inr (cl @ map (\<lambda>k. noise_incident (length cl + k) (?noise ! k)) [0..<length ?noise])"
    by blast
  let ?ns = "map (\<lambda>k. noise_incident (length cl + k) (?noise ! k)) [0..<length ?noise]"
  have 1: "create_incidents df labels = Inr (sort_by_risk (cl @ ?ns))"
    using cl by (simp add: create_incidents_def)
  from noise_row_in_rows_with [OF assms]
  obtain j where j: "j < length ?noise" "?noise ! j = df ! k" by (auto simp: in_set_conv_nth)
  let ?i = "noise_incident (length cl + j) (df ! k)"
  have "?ns ! j = ?i" using j by simp
  moreover have "j < length ?ns" using j by simp
  ultimately have "?i \<in> set ?ns" by (metis nth_mem)
  then have 2: "?i \<in> set (sort_by_risk (cl @ ?ns))" by (simp add: sort_by_risk_def)
  have 3: "alerts ?i = [df ! k] \<and> alert_count ?i = 1 \<and> total_revenue_risk ?i = revenue_risk (df ! k)
     \<and> priority ?i = Low" by (simp add: noise_incident_def)
  have 4: "priority ?i = cluster_priority (total_revenue_risk ?i) \<longleftrightarrow> revenue_risk (df ! k) \<le> 100000"
    by (simp add: noise_incident_def cluster_priority_def)
  show ?thesis using 1 2 3 4 by blast
qed

theorem noise_alert_incident_is_low_witness:
  "(length [0, - 1 :: int] = length [example_row2, example_row1] \<and> (1::nat) < length [example_row2, example_row1]
     \<and> [0, - 1 :: int] ! 1 = - 1) \<and>
   (\<exists>incs i. create_incidents [example_row2, example_row1] [0, - 1] = Inr incs \<and> i \<in> set incs
     \<and> alerts i = [[example_row2, example_row1] ! 1] \<and> alert_count i = 1
     \<and> total_revenue_risk i = revenue_risk ([example_row2, example_row1] ! 1)
     \<and> priority i = Low
     \<and> (priority i = cluster_priority (total_revenue_risk i) \<longleftrightarrow> revenue_risk ([example_row2, example_row1] ! 1) \<le> 100000))"
  using noise_alert_incident_is_low [of "[0, - 1]" "[example_row2, example_row1]" 1]
  by simp

text \<open>
  Counterexample to claim C3 as stated: a noise row with revenue risk 600000 gets
  priority \<open>Low\<close>, where the thresholds give \<open>High\<close>.
\<close>

theorem noise_priority_by_thresholds_counterexample:
  "map_sum id (map priority) (create_incidents [example_row1] [- 1]) = Inr [Low]
   \<and> map_sum id (map total_revenue_risk) (create_incidents [example_row1] [- 1]) = Inr [600000]
   \<and> cluster_priority 600000 = High"
  by (simp add: create_incidents_def build_incidents_def rows_with_def noise_incident_def
      sort_by_risk_def example_row1_def cluster_priority_def)





section \<open>Properties of the radius estimate\<close>

lemma euclidean_1d: "euclidean [a] [b] = \<bar>a - b\<bar>"
  by (simp add: euclidean_def)








lemma find_optimal_eps_fails_iff:
  "isl (find_optimal_eps features min_samples) \<longleftrightarrow> min_samples = 0 \<or> length features < min_samples"
  by (auto simp: find_optimal_eps_def Let_def)

lemma find_optimal_eps_too_few:
  "length features < min_samples \<Longrightarrow>
   find_optimal_eps features min_samples = Inl (if features = [] then EmptyBatch else TooFewSamples)"
  by (auto simp: find_optimal_eps_def)

lemma cluster_alerts_too_few:
  "length features < min_samples \<Longrightarrow>
   cluster_alerts dbscan self features None min_samples
     = (Inl (if features = [] then EmptyBatch else TooFewSamples), self)"
  by (simp add: cluster_alerts_def find_optimal_eps_too_few)

lemma preprocess_features_length:
  "fst (preprocess_features self df) = Inr (X, pdf) \<Longrightarrow> length X = length df \<and> length pdf = length df"
  by (auto simp: preprocess_features_def Let_def scaler_transform_def processed_table_def
      split: sum.splits prod.splits)

lemma preprocess_features_clusterer:
  "clusterer (snd (preprocess_features self df)) = clusterer self"
  by (auto simp: preprocess_features_def Let_def split: sum.splits prod.splits)

lemma correlate_alerts_too_few:
  assumes "length df < 5"
  shows "\<exists>e self'. correlate_alerts dbscan self (Some df) = (Inl e, self') \<and> clusterer self' = clusterer self"
proof (cases "preprocess_features self df")
  case (Pair res self1)
  have c: "clusterer self1 = clusterer self" using preprocess_features_clusterer [of self df] Pair by simp
  show ?thesis
  proof (cases res)
    case (Inl e)
    then show ?thesis using Pair c by (simp add: correlate_alerts_def)
  next
    case (Inr p)
    obtain X pdf where p: "p = (X, pdf)" by (cases p)
    have "length X = length df" using preprocess_features_length [of self df X pdf] Pair Inr p by simp
    then have "length X < 5" using assms by simp
    from cluster_alerts_too_few [OF this]
    have "cluster_alerts dbscan self1 X None 5 = (Inl (if X = [] then EmptyBatch else TooFewSamples), self1)" .
    then show ?thesis using Pair Inr p c by (simp add: correlate_alerts_def)
  qed
qed

text \<open>
  Claim C7, as amended. The estimate fails exactly when \<open>min_samples\<close> is 0 or the
  table has fewer than \<open>min_samples\<close> vectors. On such a table \<open>cluster_alerts\<close>
  without an explicit \<open>eps\<close> returns that error whatever the clustering function is
  and leaves the object as it was, so no clusterer is built; and the pipeline, which
  uses \<open>min_samples = 5\<close>, returns an error to its caller on fewer than five alerts
  without building a clusterer.
\<close>

theorem estimation_fails_below_min_samples:
  "(isl (find_optimal_eps features min_samples) \<longleftrightarrow> min_samples = 0 \<or> length features < min_samples)
   \<and> (length features < min_samples \<longrightarrow>
        cluster_alerts dbscan self features None min_samples
          = (Inl (if features = [] then EmptyBatch else TooFewSamples), self))
   \<and> (length df < 5 \<longrightarrow>
        (\<exists>e self'. correlate_alerts dbscan self (Some df) = (Inl e, self')
                    \<and> clusterer self' = clusterer self))"
proof (intro conjI impI)
  show "isl (find_optimal_eps features min_samples) \<longleftrightarrow> min_samples = 0 \<or> length features < min_samples"
    by (rule find_optimal_eps_fails_iff)
next
  assume "length features < min_samples"
  then show "cluster_alerts dbscan self features None min_samples
          = (Inl (if features = [] then EmptyBatch else TooFewSamples), self)"
    by (rule cluster_alerts_too_few)
next
  assume "length df < 5"
  then show "\<exists>e self'. correlate_alerts dbscan self (Some df) = (Inl e, self')
                    \<and> clusterer self' = clusterer self"
    by (rule correlate_alerts_too_few)
qed

theorem estimation_fails_below_min_samples_witness:
  "(length [[0::real]] < 2 \<and> length [example_alert1] < 5) \<and>
   (isl (find_optimal_eps [[0]] 2) \<longleftrightarrow> (2::nat) = 0 \<or> length [[0::real]] < 2)
   \<and> cluster_alerts all_noise new_correlator [[0]] None 2 = (Inl TooFewSamples, new_correlator)
   \<and> (\<exists>e self'. correlate_alerts all_noise new_correlator (Some [example_alert1]) = (Inl e, self')
                    \<and> clusterer self' = clusterer new_correlator)"
proof -
  have h1: "length [[0::real]] < 2" and h2: "length [example_alert1] < 5" by simp_all
  note t = estimation_fails_below_min_samples [of "[[0]]" 2 all_noise new_correlator "[example_alert1]"]
  have a: "isl (find_optimal_eps [[0]] 2) \<longleftrightarrow> (2::nat) = 0 \<or> length [[0::real]] < 2"
    using t by (rule conjunct1)
  have b: "cluster_alerts all_noise new_correlator [[0]] None 2 = (Inl TooFewSamples, new_correlator)"
    using t h1 by simp
  have c: "\<exists>e self'. correlate_alerts all_noise new_correlator (Some [example_alert1]) = (Inl e, self')
                    \<and> clusterer self' = clusterer new_correlator"
    using t h2 by blast
  show ?thesis using h1 h2 a b c by blast
qed

text \<open>
  Counterexample to claim C7 as stated: two vectors with \<open>min_samples = 2\<close> are fewer
  than \<open>min_samples + 1\<close>, and the estimate succeeds with radius 1.
\<close>

theorem estimation_at_min_samples_counterexample:
  "length [[0], [1 :: real]] < 2 + 1 \<and> find_optimal_eps [[0], [1]] 2 = Inr 1"
  by (simp add: find_optimal_eps_def kneighbors_def percentile_def euclidean_1d)

section \<open>Properties of the feature encoding and the normalisation\<close>

















section \<open>Properties of the pipeline\<close>

lemma euclidean_third: "euclidean [a, b, x, c, d, e] [a, b, y, c, d, e] = \<bar>x - y\<bar>"
  by (simp add: euclidean_def)

lemma example_batch_table:
  "processed_table example_batch = alerts example_incident"
  by (simp add: example_batch_def example_incident_def processed_table_def processed_row_def
      fit_transform_labels_def fit_classes_def dt_hour_def dt_dayofweek_def)

lemma example_batch_features:
  "map feature_values (alerts example_incident) = map (\<lambda>c. [0, 0, c, 200000, 0, 3]) [1, 1, 1, 1, 6]"
  by (simp add: example_incident_def feature_values_def)

lemma example_batch_fit:
  "scaler_fit (map (\<lambda>c. [0, 0, c, 200000, 0, 3]) [1, 1, 1, 1, 6])
     = Inr ([0, 0, 2, 200000, 0, 3], [1, 1, 2, 1, 1, 1])"
  by (simp add: upt_rec [of _ "numeral _"] upt_rec [of _ "Suc _"] column_def mean_def std_def
      variance_def handle_zeros_in_scale_def power2_eq_square)

lemma example_batch_preprocessed:
  "fst (preprocess_features self example_batch) =
     Inr (map (\<lambda>c. [0, 0, c, 0, 0, 0]) [- 1 / 2, - 1 / 2, - 1 / 2, - 1 / 2, 2], alerts example_incident)"
  unfolding preprocess_features_def Let_def example_batch_table example_batch_features example_batch_fit
  by (simp add: scaler_transform_def upt_rec [of _ "numeral _"] upt_rec [of _ "Suc _"])

lemma example_batch_eps:
  "find_optimal_eps (map (\<lambda>c. [0, 0, c, 0, 0, 0]) [- 1 / 2, - 1 / 2, - 1 / 2, - 1 / 2, 2]) 5 = Inr (5 / 2)"
  by (simp add: find_optimal_eps_def kneighbors_def percentile_def euclidean_third)

lemma example_batch_labels:
  "fst (cluster_alerts one_cluster self
          (map (\<lambda>c. [0, 0, c, 0, 0, 0]) [- 1 / 2, - 1 / 2, - 1 / 2, - 1 / 2, 2]) None 5)
     = Inr [0, 0, 0, 0, 0]"
  unfolding cluster_alerts_def example_batch_eps
  by (simp add: one_cluster_def Let_def)

lemma example_batch_incidents:
  "create_incidents (alerts example_incident) [0, 0, 0, 0, 0] = Inr [example_incident]"
  by (simp add: create_incidents_def build_incidents_def rows_with_def cluster_incident_def
      series_mode_def sort_by_risk_def example_incident_def cluster_priority_def)

lemma fst_correlate_alerts:
  "fst (correlate_alerts dbscan self (Some df)) =
     (case fst (preprocess_features self df) of
        Inl e \<Rightarrow> Inl e
      | Inr (X, pdf) \<Rightarrow>
          (case fst (cluster_alerts dbscan (snd (preprocess_features self df)) X None 5) of
             Inl e \<Rightarrow> Inl e
           | Inr ls \<Rightarrow> map_sum id Some (create_incidents pdf ls)))"
  by (simp add: correlate_alerts_def split: prod.splits sum.splits)

lemma example_batch_correlated:
  "fst (correlate_alerts one_cluster self (Some example_batch)) = Inr (Some [example_incident])"
  by (simp only: fst_correlate_alerts example_batch_preprocessed example_batch_labels
      example_batch_incidents sum.case prod.case map_sum.simps)

lemma create_incidents_sorted:
  "create_incidents pdf ls = Inr incs \<Longrightarrow> sorted (rev (map total_revenue_risk incs))"
  using sorted_by_risk_descending by (auto simp: create_incidents_def split: sum.splits)

lemma correlate_alerts_ranked:
  assumes "fst (correlate_alerts dbscan self loaded) = Inr (Some incs)"
  shows "sorted (rev (map total_revenue_risk incs))"
proof (cases loaded)
  case None
  then show ?thesis using assms by (simp add: correlate_alerts_def)
next
  case (Some df)
  have "\<exists>pdf ls. map_sum id Some (create_incidents pdf ls) = Inr (Some incs)"
    using assms unfolding Some fst_correlate_alerts
    by (auto split: sum.splits prod.splits)
  then obtain pdf ls where m: "map_sum id Some (create_incidents pdf ls) = Inr (Some incs)"
    by blast
  have "create_incidents pdf ls = Inr incs"
    using m by (cases "create_incidents pdf ls") simp_all
  then show ?thesis by (rule create_incidents_sorted)
qed

lemma explicit_eps_same_as_estimate:
  "find_optimal_eps features min_samples = Inr e \<Longrightarrow>
   cluster_alerts dbscan self features None min_samples
     = cluster_alerts dbscan self features (Some e) min_samples"
  by (simp add: cluster_alerts_def)

lemma explicit_eps_no_estimation_failure:
  "fst (cluster_alerts dbscan self features (Some e) min_samples) \<noteq> Inl TooFewSamples"
  by (simp add: cluster_alerts_def Let_def)

text \<open>
  Claim C8, as amended. The entry point \<open>correlate_alerts\<close> takes the batch only. It
  returns \<open>None\<close> when the batch could not be loaded; otherwise it preprocesses the
  batch, clusters with an estimated \<open>eps\<close> and \<open>min_samples = 5\<close>, and aggregates; a
  list it returns is in descending order of \<open>total_revenue_risk\<close>. The explicit
  \<open>eps\<close> is a parameter of \<open>cluster_alerts\<close>: given the value the estimate would
  return, it yields the same result as the estimate, and with an explicit \<open>eps\<close> the
  failure of the estimate on a small batch never occurs.
\<close>

theorem correlate_alerts_fixed_parameters:
  "fst (correlate_alerts dbscan self None) = Inr None
   \<and> fst (correlate_alerts dbscan self (Some df)) =
       (case fst (preprocess_features self df) of
          Inl e \<Rightarrow> Inl e
        | Inr (X, pdf) \<Rightarrow>
            (case fst (cluster_alerts dbscan (snd (preprocess_features self df)) X None 5) of
               Inl e \<Rightarrow> Inl e
             | Inr ls \<Rightarrow> map_sum id Some (create_incidents pdf ls)))
   \<and> (fst (correlate_alerts dbscan self loaded) = Inr (Some incs)
        \<longrightarrow> sorted (rev (map total_revenue_risk incs)))
   \<and> (find_optimal_eps features min_samples = Inr e
        \<longrightarrow> cluster_alerts dbscan self features None min_samples
              = cluster_alerts dbscan self features (Some e) min_samples)
   \<and> fst (cluster_alerts dbscan self features (Some e) min_samples) \<noteq> Inl TooFewSamples"
proof (intro conjI impI)
  show "fst (correlate_alerts dbscan self None) = Inr None" by (simp add: correlate_alerts_def)
next
  show "fst (correlate_alerts dbscan self (Some df)) =
       (case fst (preprocess_features self df) of
          Inl e \<Rightarrow> Inl e
        | Inr (X, pdf) \<Rightarrow>
            (case fst (cluster_alerts dbscan (snd (preprocess_features self df)) X None 5) of
               Inl e \<Rightarrow> Inl e
             | Inr ls \<Rightarrow> map_sum id Some (create_incidents pdf ls)))"
    by (rule fst_correlate_alerts)
next
  assume "fst (correlate_alerts dbscan self loaded) = Inr (Some incs)"
  then show "sorted (rev (map total_revenue_risk incs))" by (rule correlate_alerts_ranked)
next
  assume "find_optimal_eps features min_samples = Inr e"
  then show "cluster_alerts dbscan self features None min_samples
              = cluster_alerts dbscan self features (Some e) min_samples"
    by (rule explicit_eps_same_as_estimate)
next
  show "fst (cluster_alerts dbscan self features (Some e) min_samples) \<noteq> Inl TooFewSamples"
    by (rule explicit_eps_no_estimation_failure)
qed

theorem correlate_alerts_fixed_parameters_witness:
  "(fst (correlate_alerts one_cluster new_correlator (Some example_batch)) = Inr (Some [example_incident])
      \<and> find_optimal_eps [[0], [1]] 2 = Inr 1)
   \<and> sorted (rev (map total_revenue_risk [example_incident]))
   \<and> cluster_alerts one_cluster new_correlator [[0], [1]] None 2
        = cluster_alerts one_cluster new_correlator [[0], [1]] (Some 1) 2
   \<and> fst (correlate_alerts one_cluster new_correlator None) = Inr None
   \<and> fst (cluster_alerts one_cluster new_correlator [[0], [1]] (Some 1) 2) \<noteq> Inl TooFewSamples"
proof -
  have h1: "fst (correlate_alerts one_cluster new_correlator (Some example_batch)) = Inr (Some [example_incident])"
    by (rule example_batch_correlated)
  have h2: "find_optimal_eps [[0], [1]] 2 = Inr 1"
    by (simp add: find_optimal_eps_def kneighbors_def percentile_def euclidean_1d)
  note t = correlate_alerts_fixed_parameters [where dbscan = one_cluster and self = new_correlator
      and loaded = "Some example_batch" and incs = "[example_incident]"
      and features = "[[0], [1]]" and min_samples = 2 and e = 1]
  have a: "sorted (rev (map total_revenue_risk [example_incident]))" using t h1 by blast
  have b: "cluster_alerts one_cluster new_correlator [[0], [1]] None 2
        = cluster_alerts one_cluster new_correlator [[0], [1]] (Some 1) 2" using t h2 by blast
  have c: "fst (correlate_alerts one_cluster new_correlator None) = Inr None" using t by blast
  have d: "fst (cluster_alerts one_cluster new_correlator [[0], [1]] (Some 1) 2) \<noteq> Inl TooFewSamples"
    using t by blast
  show ?thesis using h1 h2 a b c d by blast
qed

lemma single_alert_preprocessed:
  "map_sum id fst (fst (preprocess_features new_correlator [example_alert1])) = Inr [[0, 0, 0, 0, 0, 0]]"
  by (simp add: preprocess_features_def Let_def processed_table_def scaler_transform_def
      feature_values_def column_def mean_def upt_rec [of _ "numeral _"] upt_rec [of _ "Suc _"]
      handle_zeros_in_scale_def)

text \<open>
  Counterexample to claim C8 as stated: a batch of one alert. Its only feature vector
  is the zero vector. The entry point fails in the estimate of \<open>eps\<close> and offers no way
  around it, while \<open>cluster_alerts\<close> on the same vector with an explicit \<open>eps\<close> of
  1 returns the labels.
\<close>

theorem entry_point_without_eps_override_counterexample:
  "map_sum id fst (fst (preprocess_features new_correlator [example_alert1])) = Inr [[0, 0, 0, 0, 0, 0]]
   \<and> fst (correlate_alerts all_noise new_correlator (Some [example_alert1])) = Inl TooFewSamples
   \<and> fst (cluster_alerts all_noise new_correlator [[0, 0, 0, 0, 0, 0]] (Some 1) 5) = Inr [- 1]"
proof (intro conjI)
  show p: "map_sum id fst (fst (preprocess_features new_correlator [example_alert1])) = Inr [[0, 0, 0, 0, 0, 0]]"
    by (rule single_alert_preprocessed)
  then obtain pdf where f: "fst (preprocess_features new_correlator [example_alert1]) = Inr ([[0, 0, 0, 0, 0, 0]], pdf)"
    by (cases "fst (preprocess_features new_correlator [example_alert1])") auto
  show "fst (correlate_alerts all_noise new_correlator (Some [example_alert1])) = Inl TooFewSamples"
    unfolding fst_correlate_alerts f by (simp add: cluster_alerts_too_few)
  show "fst (cluster_alerts all_noise new_correlator [[0, 0, 0, 0, 0, 0]] (Some 1) 5) = Inr [- 1]"
    by (simp add: cluster_alerts_def all_noise_def Let_def)
qed

end
